theory Spec2Isabelle
  imports Main
begin

section \<open>Usage statistics persistence: the file plugin\<close>

text \<open>
  A shallow embedding of \<^verbatim>\<open>internal/usage/file_plugin.go\<close> and of the block of
  \<^verbatim>\<open>StartService\<close> that builds the plugin. The plugin is a record; everything it
  touches outside itself (the files on disk, the home directory, the clock, the shared
  statistics store, the log, the goroutines it launches) is one explicit world that each
  operation takes and returns. Go errors are values of a datatype, a panic is the left
  summand of a result. What the Go standard library and the statistics store compute
  (JSON encoding, path joining, duration parsing, snapshot and merge) is not part of the
  sources modelled here and is taken as a parameter, the record \<open>runtime\<close>.
\<close>

subsection \<open>Go values\<close>

text \<open>\<^verbatim>\<open>chan struct{}\<close>: nil, open or closed. Closing a nil or a closed channel panics.\<close>

datatype chan = ChanNil | ChanOpen | ChanClosed

datatype panic = CloseOfNilChannel | CloseOfClosedChannel | NilDereference

definition close_chan :: "chan \<Rightarrow> panic + chan" where
  "close_chan c =
     (case c of
        ChanNil \<Rightarrow> Inl CloseOfNilChannel
      | ChanClosed \<Rightarrow> Inl CloseOfClosedChannel
      | ChanOpen \<Rightarrow> Inr ChanClosed)"

text \<open>
  \<^verbatim>\<open>time.Time\<close>, to the second. A time in the local zone, as \<^verbatim>\<open>time.Now()\<close> returns it,
  carries the reading of the local wall clock and the reading of the UTC wall clock for
  the same instant; a time in UTC carries the UTC reading. \<^verbatim>\<open>UTC()\<close> keeps the instant and
  moves it to UTC. \<open>wall\<close> is the reading a time is presented in.
\<close>

record civil =
  year :: nat
  month :: nat
  day :: nat
  hour :: nat
  minute :: nat
  second :: nat

datatype gotime = LocalTime civil civil | UTCTime civil

fun UTC :: "gotime \<Rightarrow> gotime" where
  "UTC (LocalTime l u) = UTCTime u"
| "UTC (UTCTime u) = UTCTime u"

fun wall :: "gotime \<Rightarrow> civil" where
  "wall (LocalTime l u) = l"
| "wall (UTCTime u) = u"

definition digit :: "nat \<Rightarrow> char" where
  "digit n = ''0123456789'' ! (n mod 10)"

fun decimal :: "nat \<Rightarrow> string" where
  "decimal n = (if n < 10 then [digit n] else decimal (n div 10) @ [digit n])"

declare decimal.simps [simp del]

text \<open>Zero padding to a width, as \<^verbatim>\<open>appendInt\<close> does for the layout's numeric fields.\<close>

definition pad :: "nat \<Rightarrow> nat \<Rightarrow> string" where
  "pad width n = replicate (width - length (decimal n)) (CHR ''0'') @ decimal n"

text \<open>\<^verbatim>\<open>t.Format("20060102-150405")\<close>: year, month, day, a dash, hour, minute, second.\<close>

definition Format_20060102_150405 :: "gotime \<Rightarrow> string" where
  "Format_20060102_150405 t =
     (let c = wall t
      in pad 4 (year c) @ pad 2 (month c) @ pad 2 (day c) @ ''-'' @
         pad 2 (hour c) @ pad 2 (minute c) @ pad 2 (second c))"

text \<open>The functions of package \<^verbatim>\<open>strings\<close> that \<^verbatim>\<open>resolvePath\<close> calls.\<close>

definition HasPrefix :: "string \<Rightarrow> string \<Rightarrow> bool" where
  "HasPrefix s pre = (take (length pre) s = pre)"

definition TrimPrefix :: "string \<Rightarrow> string \<Rightarrow> string" where
  "TrimPrefix s pre = (if HasPrefix s pre then drop (length pre) s else s)"

definition TrimLeft :: "string \<Rightarrow> string \<Rightarrow> string" where
  "TrimLeft s cutset = dropWhile (\<lambda>c. c \<in> set cutset) s"

subsection \<open>Errors\<close>

datatype os_error = NotExist | Permission | OtherOSError string

definition IsNotExist :: "os_error \<Rightarrow> bool" where
  "IsNotExist e = (e = NotExist)"

text \<open>The errors \<^verbatim>\<open>Save\<close> and \<^verbatim>\<open>Load\<close> return, one constructor for each \<^verbatim>\<open>fmt.Errorf\<close>.\<close>

datatype error =
    MarshalUsageData string
  | CreateDirectory string os_error
  | WriteTempFile os_error
  | RenameTempFile os_error
  | ReadFileError string os_error
  | UnmarshalUsageData string
  | UnsupportedVersion int

subsection \<open>The data of the plugin\<close>

text \<open>
  \<^verbatim>\<open>*RequestStatistics\<close>: nil, or the address of the statistics store the service
  shares. The store itself lives in the world.
\<close>

datatype store_ref = NilStore | StoreRef

text \<open>The mutex \<^verbatim>\<open>mu\<close> guards \<^verbatim>\<open>stopped\<close> and \<^verbatim>\<open>filePath\<close>; operations here run one at a time.\<close>

record FileUsagePlugin =
  filePath :: string
  interval :: int
  stats :: store_ref
  stopCh :: chan
  stopped :: bool
  restoreOnStart :: bool

record 'snap FileUsageData =
  Version :: int
  SavedAt :: gotime
  Data :: "'snap"

record MergeResult =
  Added :: int
  Skipped :: int

subsection \<open>The world\<close>

datatype 'snap log_line =
    WarnRestoreFailed string error
  | ErrorFinalSaveFailed error
  | ErrorPeriodicSaveFailed error
  | DebugSaved string "'snap"
  | WarnCorruptBackedUp string
  | InfoRestored string MergeResult
  | WarnInvalidSaveInterval string

text \<open>What an operation does to the outside, in the order it does it.\<close>

datatype 'snap event =
    ReadFile string
  | MkdirAll string
  | WriteFile string string
  | Rename string string
  | Remove string
  | CallSnapshot
  | CallMergeSnapshot "'snap"
  | CloseStopCh
  | GoRun
  | Log "'snap log_line"

text \<open>
  The files on disk are a map from path to contents. Each call of package \<^verbatim>\<open>os\<close> can
  fail for reasons the plugin does not control (permissions, a full disk): \<open>fail_*\<close>
  says which calls the operating system refuses and with what error. A refused
  \<^verbatim>\<open>WriteFile\<close> may leave partial contents behind.
\<close>

record ('st, 'snap) world =
  files :: "string \<rightharpoonup> string"
  fail_read :: "string \<Rightarrow> os_error option"
  fail_mkdir :: "string \<Rightarrow> os_error option"
  fail_write :: "string \<Rightarrow> (os_error \<times> string option) option"
  fail_rename :: "string \<Rightarrow> string \<Rightarrow> os_error option"
  fail_remove :: "string \<Rightarrow> os_error option"
  home :: "string option"
  clock :: gotime
  store :: "'st"
  trace :: "'snap event list"

text \<open>
  The library and the store, as parameters. \<open>ParseDuration\<close> is \<open>None\<close> where
  \<^verbatim>\<open>time.ParseDuration\<close> returns an error (its duration is then zero). \<open>MergeSnapshot_nil\<close>
  is what \<^verbatim>\<open>MergeSnapshot\<close> does when its receiver is nil: \<open>None\<close> when it dereferences
  the receiver, its result otherwise.
\<close>

record ('st, 'snap) runtime =
  Marshal :: "'snap FileUsageData \<Rightarrow> string + string"
  Unmarshal :: "string \<Rightarrow> string + 'snap FileUsageData"
  Dir :: "string \<Rightarrow> string"
  Join :: "string \<Rightarrow> string \<Rightarrow> string"
  ParseDuration :: "string \<Rightarrow> int option"
  Snapshot :: "'st \<Rightarrow> 'snap"
  MergeSnapshot :: "'st \<Rightarrow> 'snap \<Rightarrow> 'st \<times> MergeResult"
  MergeSnapshot_nil :: "'snap \<Rightarrow> MergeResult option"

definition emit :: "'snap event \<Rightarrow> ('st, 'snap) world \<Rightarrow> ('st, 'snap) world" where
  "emit e w = w\<lparr>trace := trace w @ [e]\<rparr>"

definition os_ReadFile :: "string \<Rightarrow> ('st, 'snap) world \<Rightarrow> (os_error + string) \<times> ('st, 'snap) world" where
  "os_ReadFile path w =
     (case fail_read w path of
        Some e \<Rightarrow> (Inl e, emit (ReadFile path) w)
      | None \<Rightarrow>
          (case files w path of
             None \<Rightarrow> (Inl NotExist, emit (ReadFile path) w)
           | Some b \<Rightarrow> (Inr b, emit (ReadFile path) w)))"

definition os_MkdirAll :: "string \<Rightarrow> ('st, 'snap) world \<Rightarrow> os_error option \<times> ('st, 'snap) world" where
  "os_MkdirAll dir w = (fail_mkdir w dir, emit (MkdirAll dir) w)"

definition os_WriteFile :: "string \<Rightarrow> string \<Rightarrow> ('st, 'snap) world \<Rightarrow> os_error option \<times> ('st, 'snap) world" where
  "os_WriteFile path b w =
     (case fail_write w path of
        Some (e, residue) \<Rightarrow>
          (Some e,
           emit (WriteFile path b)
             (case residue of None \<Rightarrow> w | Some r \<Rightarrow> w\<lparr>files := (files w)(path \<mapsto> r)\<rparr>))
      | None \<Rightarrow> (None, emit (WriteFile path b) (w\<lparr>files := (files w)(path \<mapsto> b)\<rparr>)))"

definition os_Rename :: "string \<Rightarrow> string \<Rightarrow> ('st, 'snap) world \<Rightarrow> os_error option \<times> ('st, 'snap) world" where
  "os_Rename old new w =
     (case fail_rename w old new of
        Some e \<Rightarrow> (Some e, emit (Rename old new) w)
      | None \<Rightarrow>
          (case files w old of
             None \<Rightarrow> (Some NotExist, emit (Rename old new) w)
           | Some b \<Rightarrow>
               (None, emit (Rename old new) (w\<lparr>files := ((files w)(old := None))(new \<mapsto> b)\<rparr>))))"

definition os_Remove :: "string \<Rightarrow> ('st, 'snap) world \<Rightarrow> os_error option \<times> ('st, 'snap) world" where
  "os_Remove path w =
     (case fail_remove w path of
        Some e \<Rightarrow> (Some e, emit (Remove path) w)
      | None \<Rightarrow>
          (case files w path of
             None \<Rightarrow> (Some NotExist, emit (Remove path) w)
           | Some b \<Rightarrow> (None, emit (Remove path) (w\<lparr>files := (files w)(path := None)\<rparr>))))"

text \<open>\<^verbatim>\<open>p.stats.Snapshot()\<close>, called by \<^verbatim>\<open>Save\<close> after its nil check.\<close>

definition call_Snapshot :: "('st, 'snap) runtime \<Rightarrow> ('st, 'snap) world \<Rightarrow> 'snap \<times> ('st, 'snap) world" where
  "call_Snapshot rt w = (Snapshot rt (store w), emit CallSnapshot w)"

text \<open>\<^verbatim>\<open>p.stats.MergeSnapshot(d)\<close>: the receiver is passed as it is, nil or not.\<close>

definition call_MergeSnapshot ::
  "('st, 'snap) runtime \<Rightarrow> store_ref \<Rightarrow> 'snap \<Rightarrow> ('st, 'snap) world \<Rightarrow> panic + (MergeResult \<times> ('st, 'snap) world)" where
  "call_MergeSnapshot rt r d w =
     (case r of
        NilStore \<Rightarrow>
          (case MergeSnapshot_nil rt d of
             None \<Rightarrow> Inl NilDereference
           | Some res \<Rightarrow> Inr (res, emit (CallMergeSnapshot d) w))
      | StoreRef \<Rightarrow>
          (case MergeSnapshot rt (store w) d of
             (s, res) \<Rightarrow> Inr (res, emit (CallMergeSnapshot d) (w\<lparr>store := s\<rparr>))))"

subsection \<open>The plugin's operations\<close>

definition resolvePath :: "('st, 'snap) runtime \<Rightarrow> ('st, 'snap) world \<Rightarrow> string \<Rightarrow> string" where
  "resolvePath rt w path =
     (if HasPrefix path ''~'' then
        (case home w of
           None \<Rightarrow> path
         | Some h \<Rightarrow>
             (let remainder = TrimLeft (TrimPrefix path ''~'') [CHR ''/'', CHR 0x5C]
              in if remainder = [] then h else Join rt h remainder))
      else path)"

definition NewFileUsagePlugin ::
  "('st, 'snap) runtime \<Rightarrow> ('st, 'snap) world \<Rightarrow> string \<Rightarrow> int \<Rightarrow> bool \<Rightarrow> store_ref \<Rightarrow> FileUsagePlugin" where
  "NewFileUsagePlugin rt w path iv restore st =
     \<lparr>filePath = resolvePath rt w path, interval = iv, stats = st,
      stopCh = ChanOpen, stopped = False, restoreOnStart = restore\<rparr>"

definition Save :: "('st, 'snap) runtime \<Rightarrow> FileUsagePlugin \<Rightarrow> ('st, 'snap) world \<Rightarrow> error option \<times> ('st, 'snap) world" where
  "Save rt p w =
     (case stats p of
        NilStore \<Rightarrow> (None, w)
      | StoreRef \<Rightarrow>
          (case call_Snapshot rt w of
             (snapshot, w1) \<Rightarrow>
               (case Marshal rt \<lparr>Version = 1, SavedAt = UTC (clock w1), Data = snapshot\<rparr> of
                  Inl e \<Rightarrow> (Some (MarshalUsageData e), w1)
                | Inr jsonData \<Rightarrow>
                    (case os_MkdirAll (Dir rt (filePath p)) w1 of
                       (Some e, w2) \<Rightarrow> (Some (CreateDirectory (Dir rt (filePath p)) e), w2)
                     | (None, w2) \<Rightarrow>
                         (case os_WriteFile (filePath p @ ''.tmp'') jsonData w2 of
                            (Some e, w3) \<Rightarrow> (Some (WriteTempFile e), w3)
                          | (None, w3) \<Rightarrow>
                              (case os_Rename (filePath p @ ''.tmp'') (filePath p) w3 of
                                 (Some e, w4) \<Rightarrow>
                                   (Some (RenameTempFile e),
                                    snd (os_Remove (filePath p @ ''.tmp'') w4))
                               | (None, w4) \<Rightarrow>
                                   (None, emit (Log (DebugSaved (filePath p) snapshot)) w4)))))))"

definition Load ::
  "('st, 'snap) runtime \<Rightarrow> FileUsagePlugin \<Rightarrow> ('st, 'snap) world \<Rightarrow> panic + (error option \<times> ('st, 'snap) world)" where
  "Load rt p w =
     (case os_ReadFile (filePath p) w of
        (Inl err, w1) \<Rightarrow>
          if IsNotExist err then Inr (None, w1)
          else Inr (Some (ReadFileError (filePath p) err), w1)
      | (Inr data, w1) \<Rightarrow>
          (case Unmarshal rt data of
             Inl e \<Rightarrow>
               (let backupPath = filePath p @ ''.corrupt.'' @ Format_20060102_150405 (clock w1)
                in case os_Rename (filePath p) backupPath w1 of
                     (None, w2) \<Rightarrow>
                       Inr (Some (UnmarshalUsageData e), emit (Log (WarnCorruptBackedUp backupPath)) w2)
                   | (Some renameErr, w2) \<Rightarrow> Inr (Some (UnmarshalUsageData e), w2))
           | Inr fileData \<Rightarrow>
               if Version fileData \<noteq> 1 then Inr (Some (UnsupportedVersion (Version fileData)), w1)
               else
                 (case call_MergeSnapshot rt (stats p) (Data fileData) w1 of
                    Inl pn \<Rightarrow> Inl pn
                  | Inr (result, w2) \<Rightarrow>
                      Inr (None, emit (Log (InfoRestored (filePath p) result)) w2))))"

definition Start :: "('st, 'snap) runtime \<Rightarrow> FileUsagePlugin \<Rightarrow> ('st, 'snap) world \<Rightarrow> panic + ('st, 'snap) world" where
  "Start rt p w =
     (case (if restoreOnStart p then
              (case Load rt p w of
                 Inl pn \<Rightarrow> Inl pn
               | Inr (Some err, w1) \<Rightarrow> Inr (emit (Log (WarnRestoreFailed (filePath p) err)) w1)
               | Inr (None, w1) \<Rightarrow> Inr w1)
            else Inr w) of
        Inl pn \<Rightarrow> Inl pn
      | Inr w1 \<Rightarrow> if interval p \<le> 0 then Inr w1 else Inr (emit GoRun w1))"

text \<open>
  The critical section of \<^verbatim>\<open>Stop\<close> (lock, test \<^verbatim>\<open>stopped\<close>, set it, unlock): whether
  this call is the one that goes on, and the plugin it leaves.
\<close>

definition Stop_enter :: "FileUsagePlugin \<Rightarrow> bool \<times> FileUsagePlugin" where
  "Stop_enter p = (if stopped p then (False, p) else (True, p\<lparr>stopped := True\<rparr>))"

definition Stop ::
  "('st, 'snap) runtime \<Rightarrow> FileUsagePlugin \<Rightarrow> ('st, 'snap) world \<Rightarrow> panic + (FileUsagePlugin \<times> ('st, 'snap) world)" where
  "Stop rt p w =
     (case Stop_enter p of
        (False, p1) \<Rightarrow> Inr (p1, w)
      | (True, p1) \<Rightarrow>
          (case close_chan (stopCh p1) of
             Inl pn \<Rightarrow> Inl pn
           | Inr c \<Rightarrow>
               (case Save rt (p1\<lparr>stopCh := c\<rparr>) (emit CloseStopCh w) of
                  (Some err, w1) \<Rightarrow> Inr (p1\<lparr>stopCh := c\<rparr>, emit (Log (ErrorFinalSaveFailed err)) w1)
                | (None, w1) \<Rightarrow> Inr (p1\<lparr>stopCh := c\<rparr>, w1))))"

text \<open>
  The goroutine \<^verbatim>\<open>run\<close>: each turn of its loop blocks in a \<^verbatim>\<open>select\<close>, and the list
  gives which case each turn takes. It saves on a tick and returns when it receives from
  the stop channel; an empty list is a goroutine still blocked.
\<close>

datatype select = TickerC | StopChRecv

fun run :: "('st, 'snap) runtime \<Rightarrow> FileUsagePlugin \<Rightarrow> select list \<Rightarrow> ('st, 'snap) world \<Rightarrow> ('st, 'snap) world" where
  "run rt p [] w = w"
| "run rt p (TickerC # cs) w =
     (case Save rt p w of
        (Some err, w1) \<Rightarrow> run rt p cs (emit (Log (ErrorPeriodicSaveFailed err)) w1)
      | (None, w1) \<Rightarrow> run rt p cs w1)"
| "run rt p (StopChRecv # cs) w = w"

subsection \<open>Building the plugin in \<^verbatim>\<open>StartService\<close>\<close>

text \<open>The fields of \<^verbatim>\<open>cfg.UsageStatistics\<close> that \<^verbatim>\<open>StartService\<close> reads.\<close>

record UsageStatistics =
  PersistFile :: string
  SaveInterval :: string
  RestoreOnStart :: bool

text \<open>
  The first block of \<^verbatim>\<open>StartService\<close>: the plugin it builds, if any, and the world with
  the warning it may have logged. \<^verbatim>\<open>usage.GetRequestStatistics()\<close> is the shared store.
\<close>

definition StartService_filePlugin ::
  "('st, 'snap) runtime \<Rightarrow> UsageStatistics \<Rightarrow> ('st, 'snap) world \<Rightarrow> FileUsagePlugin option \<times> ('st, 'snap) world" where
  "StartService_filePlugin rt cfg w =
     (if PersistFile cfg \<noteq> [] then
        (let iv = (case ParseDuration rt (SaveInterval cfg) of None \<Rightarrow> 0 | Some d \<Rightarrow> d);
             w1 = (if iv \<le> 0 \<and> SaveInterval cfg \<noteq> [] \<and> SaveInterval cfg \<noteq> ''0''
                   then emit (Log (WarnInvalidSaveInterval (SaveInterval cfg))) w else w)
         in (Some (NewFileUsagePlugin rt w1 (PersistFile cfg) iv (RestoreOnStart cfg) StoreRef), w1))
      else (None, w))"

subsection \<open>Observations on a world\<close>

text \<open>How many events of a kind a trace holds.\<close>

definition count_events :: "('snap event \<Rightarrow> bool) \<Rightarrow> ('st, 'snap) world \<Rightarrow> nat" where
  "count_events P w = length (filter P (trace w))"

fun is_WriteFile :: "'snap event \<Rightarrow> bool" where
  "is_WriteFile (WriteFile path b) = True"
| "is_WriteFile e = False"

fun is_merge :: "'snap event \<Rightarrow> bool" where
  "is_merge (CallMergeSnapshot d) = True"
| "is_merge e = False"

text \<open>
  A plugin as \<^verbatim>\<open>NewFileUsagePlugin\<close> builds it and \<^verbatim>\<open>Stop\<close> leaves it: the stop channel
  is open until the plugin is stopped and closed from then on.
\<close>

definition plugin_inv :: "FileUsagePlugin \<Rightarrow> bool" where
  "plugin_inv p = (stopCh p = (if stopped p then ChanClosed else ChanOpen))"

subsection \<open>A sample runtime and world\<close>

text \<open>
  Concrete values for the parameters, on which the theorems below are run: a Unix
  reading of \<^verbatim>\<open>filepath.Clean\<close>, \<^verbatim>\<open>Dir\<close> and \<^verbatim>\<open>Join\<close>; \<^verbatim>\<open>time.ParseDuration\<close> on
  strings without a fractional part; a store that is one request counter, with a small
  textual codec for its envelope.
\<close>

definition is_digit :: "char \<Rightarrow> bool" where
  "is_digit c = (c \<in> set ''0123456789'')"

definition digit_val :: "char \<Rightarrow> nat" where
  "digit_val c = of_char c - 48"

fun splitc :: "char \<Rightarrow> string \<Rightarrow> string list" where
  "splitc sep [] = [[]]"
| "splitc sep (c # cs) =
     (if c = sep then [] # splitc sep cs
      else (case splitc sep cs of [] \<Rightarrow> [[c]] | x # xs \<Rightarrow> (c # x) # xs))"

fun join_slash :: "string list \<Rightarrow> string" where
  "join_slash [] = []"
| "join_slash [x] = x"
| "join_slash (x # y # ys) = x @ ''/'' @ join_slash (y # ys)"

text \<open>
  The elements of a path, cleaned: empty elements and \<^verbatim>\<open>.\<close> go, \<^verbatim>\<open>..\<close> removes the
  element before it, stays in front of a relative path and goes at the root.
\<close>

fun clean_elems :: "bool \<Rightarrow> string list \<Rightarrow> string list \<Rightarrow> string list" where
  "clean_elems rooted out [] = rev out"
| "clean_elems rooted out (e # es) =
     (if e = [] \<or> e = ''.'' then clean_elems rooted out es
      else if e = ''..'' then
        (case out of
           [] \<Rightarrow> if rooted then clean_elems rooted [] es else clean_elems rooted [''..''] es
         | x # xs \<Rightarrow>
             if x = ''..'' then clean_elems rooted (''..'' # out) es
             else clean_elems rooted xs es)
      else clean_elems rooted (e # out) es)"

definition Clean :: "string \<Rightarrow> string" where
  "Clean path =
     (if path = [] then ''.''
      else
        (let rooted = (hd path = CHR ''/'');
             body = join_slash (clean_elems rooted [] (splitc (CHR ''/'') path))
         in if rooted then ''/'' @ body else if body = [] then ''.'' else body))"

definition Dir_unix :: "string \<Rightarrow> string" where
  "Dir_unix path = Clean (rev (dropWhile (\<lambda>c. c \<noteq> CHR ''/'') (rev path)))"

definition Join_unix :: "string \<Rightarrow> string \<Rightarrow> string" where
  "Join_unix a b =
     (if a = [] then (if b = [] then [] else Clean b)
      else if b = [] then Clean a
      else Clean (a @ ''/'' @ b))"

text \<open>
  \<^verbatim>\<open>time.ParseDuration\<close> where no number has a decimal point: an optional sign, then
  either the single character \<^verbatim>\<open>0\<close> or one or more groups of digits and a unit, summed in
  nanoseconds with the library's overflow checks. A number with a decimal point goes
  through \<^verbatim>\<open>float64\<close> in the library; this reading does not cover it and answers \<open>None\<close>.
\<close>

definition unit_ns :: "string \<Rightarrow> nat option" where
  "unit_ns u =
     (if u = ''ns'' then Some 1
      else if u = ''us'' \<or> u = [CHR 0xC2, CHR 0xB5, CHR ''s''] \<or> u = [CHR 0xCE, CHR 0xBC, CHR ''s'']
        then Some 1000
      else if u = ''ms'' then Some 1000000
      else if u = ''s'' then Some 1000000000
      else if u = ''m'' then Some 60000000000
      else if u = ''h'' then Some 3600000000000
      else None)"

definition add_group :: "nat \<Rightarrow> nat \<Rightarrow> string \<Rightarrow> nat option" where
  "add_group d v u =
     (case unit_ns u of
        None \<Rightarrow> None
      | Some k \<Rightarrow>
          if v > 2 ^ 63 div k then None
          else if (d + v * k) mod 2 ^ 64 > 2 ^ 63 then None
          else Some ((d + v * k) mod 2 ^ 64))"

datatype pstate = Number nat bool | Unit nat string

fun groups :: "nat \<Rightarrow> pstate \<Rightarrow> string \<Rightarrow> nat option" where
  "groups d (Number v seen) [] = None"
| "groups d (Unit v u) [] = add_group d v u"
| "groups d (Number v seen) (c # cs) =
     (if is_digit c then
        (if v > 2 ^ 63 div 10 \<or> 10 * v + digit_val c > 2 ^ 63 then None
         else groups d (Number (10 * v + digit_val c) True) cs)
      else if c = CHR ''.'' \<or> \<not> seen then None
      else groups d (Unit v [c]) cs)"
| "groups d (Unit v u) (c # cs) =
     (if is_digit c then
        (case add_group d v u of
           None \<Rightarrow> None
         | Some d' \<Rightarrow> groups d' (Number (digit_val c) True) cs)
      else if c = CHR ''.'' then None
      else groups d (Unit v (u @ [c])) cs)"

definition ParseDuration_whole :: "string \<Rightarrow> int option" where
  "ParseDuration_whole s =
     (let signed = (s \<noteq> [] \<and> (hd s = CHR ''-'' \<or> hd s = CHR ''+''));
          neg = (s \<noteq> [] \<and> hd s = CHR ''-'');
          r = (if signed then tl s else s)
      in if r = ''0'' then Some 0
         else if r = [] then None
         else (case groups 0 (Number 0 False) r of
                 None \<Rightarrow> None
               | Some d \<Rightarrow>
                   if neg then Some (- int d)
                   else if d > 2 ^ 63 - 1 then None
                   else Some (int d)))"

text \<open>The codec of the sample: the version and the counter in a fixed frame; the time stamp is not written.\<close>

definition read_nat :: "string \<Rightarrow> (nat \<times> string) option" where
  "read_nat s =
     (if takeWhile is_digit s = [] then None
      else Some (foldl (\<lambda>a c. 10 * a + digit_val c) 0 (takeWhile is_digit s), dropWhile is_digit s))"

definition read_int :: "string \<Rightarrow> (int \<times> string) option" where
  "read_int s =
     (if HasPrefix s ''-'' then map_option (\<lambda>(n, r). (- int n, r)) (read_nat (tl s))
      else map_option (\<lambda>(n, r). (int n, r)) (read_nat s))"

definition strip_prefix :: "string \<Rightarrow> string \<Rightarrow> string option" where
  "strip_prefix pre s = (if HasPrefix s pre then Some (drop (length pre) s) else None)"

definition show_int :: "int \<Rightarrow> string" where
  "show_int i = (if i < 0 then ''-'' @ decimal (nat (- i)) else decimal (nat i))"

definition zero_time :: gotime where
  "zero_time = UTCTime \<lparr>year = 1, month = 1, day = 1, hour = 0, minute = 0, second = 0\<rparr>"

definition Marshal_sample :: "nat FileUsageData \<Rightarrow> string + string" where
  "Marshal_sample e = Inr (''{version: '' @ show_int (Version e) @ '', data: '' @ decimal (Data e) @ ''}'')"

definition Unmarshal_sample :: "string \<Rightarrow> string + nat FileUsageData" where
  "Unmarshal_sample s =
     (case strip_prefix ''{version: '' s of
        None \<Rightarrow> Inl ''invalid character''
      | Some s1 \<Rightarrow>
          (case read_int s1 of
             None \<Rightarrow> Inl ''invalid character''
           | Some (v, s2) \<Rightarrow>
               (case strip_prefix '', data: '' s2 of
                  None \<Rightarrow> Inl ''invalid character''
                | Some s3 \<Rightarrow>
                    (case read_nat s3 of
                       None \<Rightarrow> Inl ''invalid character''
                     | Some (d, s4) \<Rightarrow>
                         if s4 = ''}'' then Inr \<lparr>Version = v, SavedAt = zero_time, Data = d\<rparr>
                         else Inl ''invalid character''))))"

text \<open>The sample store: merging adds the restored count; a nil receiver is dereferenced.\<close>

definition rt_sample :: "(nat, nat) runtime" where
  "rt_sample =
     \<lparr>Marshal = Marshal_sample, Unmarshal = Unmarshal_sample,
      Dir = Dir_unix, Join = Join_unix, ParseDuration = ParseDuration_whole,
      Snapshot = (\<lambda>s. s),
      MergeSnapshot = (\<lambda>s d. (s + d, \<lparr>Added = int d, Skipped = 0\<rparr>)),
      MergeSnapshot_nil = (\<lambda>d. None)\<rparr>"

definition t_sample :: gotime where
  "t_sample =
     LocalTime \<lparr>year = 2026, month = 2, day = 2, hour = 20, minute = 30, second = 5\<rparr>
               \<lparr>year = 2026, month = 2, day = 2, hour = 12, minute = 30, second = 5\<rparr>"

text \<open>An empty disk on which no call fails, a home directory, a store that has counted 7 requests.\<close>

definition w_sample :: "(nat, nat) world" where
  "w_sample =
     \<lparr>files = Map.empty,
      fail_read = (\<lambda>path. None), fail_mkdir = (\<lambda>dir. None), fail_write = (\<lambda>path. None),
      fail_rename = (\<lambda>old new. None), fail_remove = (\<lambda>path. None),
      home = Some ''/home/u'', clock = t_sample, store = 7, trace = []\<rparr>"

definition p_sample :: FileUsagePlugin where
  "p_sample = NewFileUsagePlugin rt_sample w_sample ''~/.cli-proxy-api/usage.json'' 0 True StoreRef"

text \<open>
  The envelope \<^verbatim>\<open>Save\<close> builds in a world, and a disk that refuses none of the three
  calls by which \<^verbatim>\<open>Save\<close> writes the plugin's file.
\<close>

definition disk_accepts_save :: "('st, 'snap) runtime \<Rightarrow> FileUsagePlugin \<Rightarrow> ('st, 'snap) world \<Rightarrow> bool" where
  "disk_accepts_save rt p w =
     (fail_mkdir w (Dir rt (filePath p)) = None \<and>
      fail_write w (filePath p @ ''.tmp'') = None \<and>
      fail_rename w (filePath p @ ''.tmp'') (filePath p) = None)"

definition envelope :: "('st, 'snap) runtime \<Rightarrow> ('st, 'snap) world \<Rightarrow> 'snap FileUsageData" where
  "envelope rt w = \<lparr>Version = 1, SavedAt = UTC (clock w), Data = Snapshot rt (store w)\<rparr>"

text \<open>The two characters \<^verbatim>\<open>resolvePath\<close> trims: slash and backslash.\<close>

definition is_separator :: "char \<Rightarrow> bool" where
  "is_separator c = (c = CHR ''/'' \<or> c = CHR 0x5C)"

text \<open>
  The configured interval disables periodic saving when \<^verbatim>\<open>time.ParseDuration\<close> rejects
  the string or gives a duration that is not positive.
\<close>

definition nonpositive_or_unparsable :: "('st, 'snap) runtime \<Rightarrow> string \<Rightarrow> bool" where
  "nonpositive_or_unparsable rt s = (case ParseDuration rt s of None \<Rightarrow> True | Some d \<Rightarrow> d \<le> 0)"

text \<open>Whether the first block of \<^verbatim>\<open>StartService\<close> logs its warning in a world.\<close>

definition logs_warning :: "('st, 'snap) runtime \<Rightarrow> UsageStatistics \<Rightarrow> ('st, 'snap) world \<Rightarrow> bool" where
  "logs_warning rt cfg w =
     (trace (snd (StartService_filePlugin rt cfg w)) =
        trace w @ [Log (WarnInvalidSaveInterval (SaveInterval cfg))])"

text \<open>
  In the specification's words: the warning is due when the supplied string is non-empty
  but unparsable or non-positive.
\<close>

definition spec_warns :: "('st, 'snap) runtime \<Rightarrow> string \<Rightarrow> bool" where
  "spec_warns rt s = (s \<noteq> [] \<and> nonpositive_or_unparsable rt s)"

section \<open>Properties\<close>

subsection \<open>Shared facts\<close>

lemmas os_defs = os_ReadFile_def os_MkdirAll_def os_WriteFile_def os_Rename_def os_Remove_def
  call_Snapshot_def emit_def

lemma emit_fields [simp]:
  "files (emit e w) = files w" "store (emit e w) = store w" "clock (emit e w) = clock w"
  "home (emit e w) = home w" "trace (emit e w) = trace w @ [e]"
  "fail_read (emit e w) = fail_read w" "fail_mkdir (emit e w) = fail_mkdir w"
  "fail_write (emit e w) = fail_write w" "fail_rename (emit e w) = fail_rename w"
  "fail_remove (emit e w) = fail_remove w"
  by (simp_all add: emit_def)

lemma envelope_emit [simp]: "envelope rt (emit e w) = envelope rt w"
  by (simp add: envelope_def emit_def)

lemma disk_accepts_save_emit [simp]: "disk_accepts_save rt p (emit e w) = disk_accepts_save rt p w"
  by (simp add: disk_accepts_save_def emit_def)

lemma p_sample_fields:
  "p_sample = \<lparr>filePath = ''/home/u/.cli-proxy-api/usage.json'', interval = 0, stats = StoreRef,
      stopCh = ChanOpen, stopped = False, restoreOnStart = True\<rparr>"
  by (simp add: p_sample_def NewFileUsagePlugin_def resolvePath_def HasPrefix_def TrimPrefix_def
      TrimLeft_def rt_sample_def w_sample_def Join_unix_def Clean_def)

lemma sample_envelope: "Marshal rt_sample (envelope rt_sample w_sample) = Inr ''{version: 1, data: 7}''"
  by (simp add: rt_sample_def w_sample_def envelope_def Marshal_sample_def show_int_def decimal.simps digit_def)

lemma sample_disk: "disk_accepts_save rt_sample p w_sample"
  by (simp add: disk_accepts_save_def w_sample_def)

lemma NewFileUsagePlugin_inv: "plugin_inv (NewFileUsagePlugin rt w path iv restore st)"
  by (simp add: plugin_inv_def NewFileUsagePlugin_def)

lemma Save_trace:
  "\<exists>evs. trace (snd (Save rt p w)) = trace w @ evs
     \<and> length (filter (\<lambda>e. e = CallSnapshot) evs) = (if stats p = StoreRef then 1 else 0)
     \<and> length (filter is_WriteFile evs) \<le> 1"
  by (auto simp: Save_def os_defs split: store_ref.splits sum.splits option.splits prod.splits)

text \<open>A periodic goroutine saves once for each tick it takes before it receives from the stop channel.\<close>

lemma run_snapshots:
  "count_events (\<lambda>e. e = CallSnapshot) (run rt p cs w) =
     count_events (\<lambda>e. e = CallSnapshot) w
       + (if stats p = StoreRef then length (takeWhile (\<lambda>c. c = TickerC) cs) else 0)"
proof (induction cs arbitrary: w)
  case Nil
  then show ?case by simp
next
  case (Cons c cs)
  show ?case
  proof (cases c)
    case TickerC
    obtain err w1 where s: "Save rt p w = (err, w1)"
      by (cases "Save rt p w")
    obtain evs where evs: "trace w1 = trace w @ evs"
      "length (filter (\<lambda>e. e = CallSnapshot) evs) = (if stats p = StoreRef then 1 else 0)"
      using Save_trace[of rt p w] s by auto
    then have one: "count_events (\<lambda>e. e = CallSnapshot) w1 =
        count_events (\<lambda>e. e = CallSnapshot) w + (if stats p = StoreRef then 1 else 0)"
      by (simp add: count_events_def)
    show ?thesis
      using TickerC s one Cons.IH[of w1] Cons.IH[of "emit (Log (ErrorPeriodicSaveFailed (the err))) w1"]
      by (cases err) (auto simp: count_events_def)
  next
    case StopChRecv
    then show ?thesis by simp
  qed
qed

lemma Save_same:
  assumes "filePath p = filePath q" and "stats p = stats q"
  shows "Save rt p w = Save rt q w"
  unfolding Save_def assms ..

lemma Save_success:
  assumes "stats p = StoreRef" and "Marshal rt (envelope rt w) = Inr b" and "disk_accepts_save rt p w"
  shows "Save rt p w =
           (None, w\<lparr>files := ((files w)(filePath p @ ''.tmp'' := None))(filePath p \<mapsto> b),
                    trace := trace w @ [CallSnapshot, MkdirAll (Dir rt (filePath p)),
                      WriteFile (filePath p @ ''.tmp'') b, Rename (filePath p @ ''.tmp'') (filePath p),
                      Log (DebugSaved (filePath p) (Snapshot rt (store w)))]\<rparr>)"
  using assms
  by (simp add: Save_def envelope_def disk_accepts_save_def os_defs)

lemma Stop_stopped: "stopped p \<Longrightarrow> Stop rt p w = Inr (p, w)"
  by (simp add: Stop_def Stop_enter_def)

lemma Stop_first:
  assumes "plugin_inv p" and "\<not> stopped p"
  shows "Stop rt p w =
           Inr (p\<lparr>stopped := True, stopCh := ChanClosed\<rparr>,
                case Save rt p (emit CloseStopCh w) of
                  (Some err, w1) \<Rightarrow> emit (Log (ErrorFinalSaveFailed err)) w1
                | (None, w1) \<Rightarrow> w1)"
  using assms
  by (auto simp: Stop_def Stop_enter_def plugin_inv_def close_chan_def
      Save_same[of "p\<lparr>stopped := True, stopCh := ChanClosed\<rparr>" p]
      split: prod.splits option.splits)

lemma Stop_inv:
  assumes "plugin_inv p" and "Stop rt p w = Inr (p', w')"
  shows "plugin_inv p'"
proof (cases "stopped p")
  case True
  then show ?thesis using assms by (simp add: Stop_stopped)
next
  case False
  then show ?thesis using assms Stop_first[of p rt w] by (auto simp: plugin_inv_def)
qed

lemma terminal_save_trace:
  "\<exists>evs. trace (case Save rt p (emit CloseStopCh w) of
                  (Some err, w1) \<Rightarrow> emit (Log (ErrorFinalSaveFailed err)) w1
                | (None, w1) \<Rightarrow> w1) = trace w @ CloseStopCh # evs
     \<and> length (filter (\<lambda>e. e = CallSnapshot) evs) = (if stats p = StoreRef then 1 else 0)
     \<and> length (filter is_WriteFile evs) \<le> 1"
proof -
  let ?w0 = "emit CloseStopCh w"
  obtain evs where evs: "trace (snd (Save rt p ?w0)) = trace ?w0 @ evs"
    "length (filter (\<lambda>e. e = CallSnapshot) evs) = (if stats p = StoreRef then 1 else 0)"
    "length (filter is_WriteFile evs) \<le> 1"
    using Save_trace[of rt p ?w0] by blast
  show ?thesis
  proof (cases "Save rt p ?w0")
    case (Pair err w1)
    then show ?thesis
      using evs by (cases err) (auto simp: emit_def)
  qed
qed

lemma Save_nil_store: "stats p = NilStore \<Longrightarrow> Save rt p w = (None, w)"
  by (simp add: Save_def)

lemma decimal_length: "n < 10 ^ k \<Longrightarrow> 0 < k \<Longrightarrow> length (decimal n) \<le> k"
proof (induction k arbitrary: n)
  case 0
  then show ?case by simp
next
  case (Suc k)
  show ?case
  proof (cases "n < 10")
    case True
    then show ?thesis by (simp add: decimal.simps[of n])
  next
    case False
    with Suc.prems have "n div 10 < 10 ^ k" and "0 < k"
      by (auto simp: less_mult_imp_div_less mult.commute intro: gr0I)
    then have "length (decimal (n div 10)) \<le> k"
      by (rule Suc.IH)
    with False show ?thesis by (simp add: decimal.simps[of n])
  qed
qed

lemma decimal_length_2: "n < 100 \<Longrightarrow> length (decimal n) \<le> 2"
  using decimal_length[of n 2] by simp

lemma decimal_length_4: "n < 10000 \<Longrightarrow> length (decimal n) \<le> 4"
  using decimal_length[of n 4] by simp

lemma pad_length: "length (decimal n) \<le> k \<Longrightarrow> length (pad k n) = k"
  by (simp add: pad_def)

lemma Format_length:
  assumes "c = wall t"
      and "year c < 10000" "month c < 100" "day c < 100" "hour c < 100" "minute c < 100" "second c < 100"
  shows "length (Format_20060102_150405 t) = 15 \<and> Format_20060102_150405 t ! 8 = CHR ''-''"
  using assms
  by (simp add: Format_20060102_150405_def Let_def pad_length decimal_length_2 decimal_length_4 nth_append)

lemma sample_dir: "Dir rt_sample ''/home/u/.cli-proxy-api/usage.json'' = ''/home/u/.cli-proxy-api''"
  by (simp add: rt_sample_def Dir_unix_def Clean_def)

lemma sample_stamp: "Format_20060102_150405 t_sample = ''20260202-203005''"
  by (simp add: Format_20060102_150405_def t_sample_def pad_def decimal.simps digit_def)

lemma Load_missing_file:
  assumes "fail_read w (filePath p) = None" and "files w (filePath p) = None"
  shows "Load rt p w = Inr (None, emit (ReadFile (filePath p)) w)"
  using assms by (simp add: Load_def os_ReadFile_def IsNotExist_def)

lemma Load_trace:
  "Load rt p w = Inr (r, w') \<Longrightarrow> \<exists>evs. trace w' = trace w @ evs \<and> GoRun \<notin> set evs"
  by (auto simp: Load_def os_defs call_MergeSnapshot_def Let_def
      split: sum.splits option.splits prod.splits if_splits store_ref.splits)

lemma Start_GoRun:
  assumes "Start rt p w = Inr w'"
  shows "count_events (\<lambda>e. e = GoRun) w' = count_events (\<lambda>e. e = GoRun) w + (if interval p \<le> 0 then 0 else 1)"
proof (cases "restoreOnStart p")
  case False
  then show ?thesis using assms
    by (auto simp: Start_def count_events_def split: if_splits)
next
  case True
  then obtain r w1 where l: "Load rt p w = Inr (r, w1)"
    using assms by (auto simp: Start_def split: sum.splits)
  then obtain evs where evs: "trace w1 = trace w @ evs" "GoRun \<notin> set evs"
    using Load_trace by blast
  then have "filter (\<lambda>e. e = GoRun) evs = []"
    by (auto simp: filter_empty_conv)
  then show ?thesis using assms True l evs
    by (cases r) (auto simp: Start_def count_events_def split: if_splits)
qed

subsection \<open>Stopping\<close>

text \<open>
  C1. \<^verbatim>\<open>Stop()\<close> is idempotent and performs exactly one terminal save. On a plugin that
  has not been stopped (its channel open, as the constructor leaves it), the first call
  wins the critical section, sets \<open>stopped\<close>, closes the stop channel and then runs
  \<^verbatim>\<open>Save\<close> once: after the close the trace holds one snapshot of a present store and at
  most one file write. On the plugin it leaves, a second call loses the critical section
  and returns the plugin and any world unchanged: no save, no panic.
\<close>

theorem Stop_twice_one_terminal_save:
  assumes "plugin_inv p" and "\<not> stopped p"
  shows "\<exists>p' w' evs.
           Stop rt p w = Inr (p', w')
         \<and> p' = p\<lparr>stopped := True, stopCh := ChanClosed\<rparr> \<and> plugin_inv p'
         \<and> w' = (case Save rt p (emit CloseStopCh w) of
                   (Some err, w1) \<Rightarrow> emit (Log (ErrorFinalSaveFailed err)) w1
                 | (None, w1) \<Rightarrow> w1)
         \<and> trace w' = trace w @ CloseStopCh # evs
         \<and> length (filter (\<lambda>e. e = CallSnapshot) evs) = (if stats p = StoreRef then 1 else 0)
         \<and> length (filter is_WriteFile evs) \<le> 1
         \<and> fst (Stop_enter p) \<and> \<not> fst (Stop_enter p')
         \<and> (\<forall>w2. Stop rt p' w2 = Inr (p', w2))"
proof -
  let ?p' = "p\<lparr>stopped := True, stopCh := ChanClosed\<rparr>"
  let ?w' = "case Save rt p (emit CloseStopCh w) of
                   (Some err, w1) \<Rightarrow> emit (Log (ErrorFinalSaveFailed err)) w1
                 | (None, w1) \<Rightarrow> w1"
  have first: "Stop rt p w = Inr (?p', ?w')"
    by (rule Stop_first[OF assms])
  obtain evs where evs: "trace ?w' = trace w @ CloseStopCh # evs"
    "length (filter (\<lambda>e. e = CallSnapshot) evs) = (if stats p = StoreRef then 1 else 0)"
    "length (filter is_WriteFile evs) \<le> 1"
    using terminal_save_trace[of rt p w] by blast
  have again: "\<forall>w2. Stop rt ?p' w2 = Inr (?p', w2)"
    by (simp add: Stop_stopped)
  have enter: "fst (Stop_enter p) \<and> \<not> fst (Stop_enter ?p')"
    using assms(2) by (simp add: Stop_enter_def)
  have inv': "plugin_inv ?p'"
    by (simp add: plugin_inv_def)
  from first inv' evs again enter show ?thesis by blast
qed

theorem Stop_twice_one_terminal_save_witness:
  "plugin_inv p_sample \<and> \<not> stopped p_sample \<and>
   (\<exists>p' w'. Stop rt_sample p_sample w_sample = Inr (p', w') \<and> stopped p' \<and> stopCh p' = ChanClosed
      \<and> files w' ''/home/u/.cli-proxy-api/usage.json'' = Some ''{version: 1, data: 7}''
      \<and> Stop rt_sample p' w' = Inr (p', w'))"
proof -
  have inv: "plugin_inv p_sample" and ns: "\<not> stopped p_sample"
    by (simp_all add: p_sample_def NewFileUsagePlugin_def plugin_inv_def)
  have p: "p_sample = \<lparr>filePath = ''/home/u/.cli-proxy-api/usage.json'', interval = 0, stats = StoreRef,
      stopCh = ChanOpen, stopped = False, restoreOnStart = True\<rparr>"
    by (simp add: p_sample_def NewFileUsagePlugin_def resolvePath_def HasPrefix_def TrimPrefix_def
        TrimLeft_def rt_sample_def w_sample_def Join_unix_def Clean_def)
  have f: "files (case Save rt_sample p_sample (emit CloseStopCh w_sample) of
                   (Some err, w1) \<Rightarrow> emit (Log (ErrorFinalSaveFailed err)) w1
                 | (None, w1) \<Rightarrow> w1) ''/home/u/.cli-proxy-api/usage.json'' = Some ''{version: 1, data: 7}''"
    by (simp add: p Save_def rt_sample_def w_sample_def os_defs Marshal_sample_def show_int_def
        decimal.simps digit_def)
  from Stop_twice_one_terminal_save[OF inv ns, of rt_sample w_sample] inv ns f
  show ?thesis by auto
qed

text \<open>
  C10. \<^verbatim>\<open>Stop()\<close> is valid from the constructed state. The plugin as
  \<^verbatim>\<open>NewFileUsagePlugin\<close> returns it, with no \<^verbatim>\<open>Start\<close> in between, is stopped by its
  first \<^verbatim>\<open>Stop\<close> without a panic: the channel was made open, so closing it succeeds;
  the flag is set; the terminal save runs once. When the store is present and the disk
  accepts the save, the events after the close are exactly one snapshot, one directory
  creation, one write of the temporary file, one rename and the log line, and the file
  holds the encoded envelope. A second call changes nothing.
\<close>

theorem Stop_from_constructed_state:
  assumes p: "p = NewFileUsagePlugin rt w0 path iv restore st"
  shows "\<exists>p' w' evs.
           Stop rt p w = Inr (p', w')
         \<and> stopped p' \<and> stopCh p' = ChanClosed
         \<and> trace w' = trace w @ CloseStopCh # evs
         \<and> length (filter (\<lambda>e. e = CallSnapshot) evs) = (if st = StoreRef then 1 else 0)
         \<and> length (filter is_WriteFile evs) \<le> 1
         \<and> (\<forall>w2. Stop rt p' w2 = Inr (p', w2))
         \<and> (st = StoreRef \<and> disk_accepts_save rt p w \<and> Marshal rt (envelope rt w) = Inr b \<longrightarrow>
               files w' = ((files w)(filePath p @ ''.tmp'' := None))(filePath p \<mapsto> b)
             \<and> evs = [CallSnapshot, MkdirAll (Dir rt (filePath p)),
                      WriteFile (filePath p @ ''.tmp'') b, Rename (filePath p @ ''.tmp'') (filePath p),
                      Log (DebugSaved (filePath p) (Snapshot rt (store w)))])"
proof -
  let ?p' = "p\<lparr>stopped := True, stopCh := ChanClosed\<rparr>"
  let ?w' = "case Save rt p (emit CloseStopCh w) of
                   (Some err, w1) \<Rightarrow> emit (Log (ErrorFinalSaveFailed err)) w1
                 | (None, w1) \<Rightarrow> w1"
  have inv: "plugin_inv p" and ns: "\<not> stopped p" and st: "stats p = st"
    by (simp_all add: p NewFileUsagePlugin_def plugin_inv_def)
  have first: "Stop rt p w = Inr (?p', ?w')"
    by (rule Stop_first[OF inv ns])
  obtain evs where evs: "trace ?w' = trace w @ CloseStopCh # evs"
    "length (filter (\<lambda>e. e = CallSnapshot) evs) = (if st = StoreRef then 1 else 0)"
    "length (filter is_WriteFile evs) \<le> 1"
    using terminal_save_trace[of rt p w] st by auto
  have again: "\<forall>w2. Stop rt ?p' w2 = Inr (?p', w2)"
    by (simp add: Stop_stopped)
  have written:
    "files ?w' = ((files w)(filePath p @ ''.tmp'' := None))(filePath p \<mapsto> b)
     \<and> evs = [CallSnapshot, MkdirAll (Dir rt (filePath p)),
              WriteFile (filePath p @ ''.tmp'') b, Rename (filePath p @ ''.tmp'') (filePath p),
              Log (DebugSaved (filePath p) (Snapshot rt (store w)))]"
    if ok: "st = StoreRef" "disk_accepts_save rt p w" "Marshal rt (envelope rt w) = Inr b"
  proof -
    have "Save rt p (emit CloseStopCh w) =
           (None, (emit CloseStopCh w)\<lparr>files := ((files w)(filePath p @ ''.tmp'' := None))(filePath p \<mapsto> b),
                    trace := trace w @ [CloseStopCh, CallSnapshot, MkdirAll (Dir rt (filePath p)),
                      WriteFile (filePath p @ ''.tmp'') b, Rename (filePath p @ ''.tmp'') (filePath p),
                      Log (DebugSaved (filePath p) (Snapshot rt (store w)))]\<rparr>)"
      using Save_success[of p rt "emit CloseStopCh w" b] ok st by simp
    then show ?thesis using evs(1) by simp
  qed
  have flags: "stopped ?p'" "stopCh ?p' = ChanClosed"
    by simp_all
  from first flags evs again written show ?thesis by blast
qed

theorem Stop_from_constructed_state_witness:
  "p_sample = NewFileUsagePlugin rt_sample w_sample ''~/.cli-proxy-api/usage.json'' 0 True StoreRef
   \<and> disk_accepts_save rt_sample p_sample w_sample
   \<and> Marshal rt_sample (envelope rt_sample w_sample) = Inr ''{version: 1, data: 7}''
   \<and> (\<exists>p' w'. Stop rt_sample p_sample w_sample = Inr (p', w') \<and> stopped p' \<and> stopCh p' = ChanClosed
        \<and> files w' = [''/home/u/.cli-proxy-api/usage.json'' \<mapsto> ''{version: 1, data: 7}'']
        \<and> trace w' = [CloseStopCh, CallSnapshot, MkdirAll ''/home/u/.cli-proxy-api'',
             WriteFile ''/home/u/.cli-proxy-api/usage.json.tmp'' ''{version: 1, data: 7}'',
             Rename ''/home/u/.cli-proxy-api/usage.json.tmp'' ''/home/u/.cli-proxy-api/usage.json'',
             Log (DebugSaved ''/home/u/.cli-proxy-api/usage.json'' 7)]
        \<and> Stop rt_sample p' w' = Inr (p', w'))"
proof -
  have dir: "Dir rt_sample ''/home/u/.cli-proxy-api/usage.json'' = ''/home/u/.cli-proxy-api''"
    by (simp add: rt_sample_def Dir_unix_def Clean_def)
  have more: "files w_sample = Map.empty" "trace w_sample = []" "Snapshot rt_sample (store w_sample) = 7"
    by (simp_all add: w_sample_def rt_sample_def)
  from Stop_from_constructed_state[OF p_sample_def, of w_sample "''{version: 1, data: 7}''"]
    sample_disk[of p_sample] sample_envelope
  obtain p' w' evs where
    "Stop rt_sample p_sample w_sample = Inr (p', w')" "stopped p'" "stopCh p' = ChanClosed"
    "trace w' = trace w_sample @ CloseStopCh # evs" "\<forall>w2. Stop rt_sample p' w2 = Inr (p', w2)"
    "files w' = ((files w_sample)(filePath p_sample @ ''.tmp'' := None))(filePath p_sample \<mapsto> ''{version: 1, data: 7}'')"
    "evs = [CallSnapshot, MkdirAll (Dir rt_sample (filePath p_sample)),
                      WriteFile (filePath p_sample @ ''.tmp'') ''{version: 1, data: 7}'',
                      Rename (filePath p_sample @ ''.tmp'') (filePath p_sample),
                      Log (DebugSaved (filePath p_sample) (Snapshot rt_sample (store w_sample)))]"
    by auto
  then show ?thesis
    using sample_disk[of p_sample] sample_envelope dir more
    by (simp add: p_sample_def[symmetric]) (simp add: p_sample_fields)
qed

subsection \<open>Loading\<close>

text \<open>
  C3. A file that is read and decodes to an envelope whose version is not 1 makes
  \<^verbatim>\<open>Load\<close> return the version error. The world it leaves is the world it found with the
  one read added to the trace: no rename, no removal, no write, no call of the store's
  merge; the files and the store are as before.
\<close>

theorem Load_rejects_other_version:
  assumes "fail_read w (filePath p) = None"
      and "files w (filePath p) = Some data"
      and "Unmarshal rt data = Inr fd"
      and "Version fd \<noteq> 1"
  shows "\<exists>w'. Load rt p w = Inr (Some (UnsupportedVersion (Version fd)), w')
           \<and> trace w' = trace w @ [ReadFile (filePath p)]
           \<and> files w' = files w
           \<and> store w' = store w
           \<and> count_events is_merge w' = count_events is_merge w
           \<and> w' = emit (ReadFile (filePath p)) w"
  using assms by (simp add: Load_def os_ReadFile_def count_events_def)

theorem Load_rejects_other_version_witness:
  "fail_read (w_sample\<lparr>files := [filePath p_sample \<mapsto> ''{version: 2, data: 7}'']\<rparr>) (filePath p_sample) = None
   \<and> Unmarshal rt_sample ''{version: 2, data: 7}'' = Inr \<lparr>Version = 2, SavedAt = zero_time, Data = 7\<rparr>
   \<and> (\<exists>w'. Load rt_sample p_sample (w_sample\<lparr>files := [filePath p_sample \<mapsto> ''{version: 2, data: 7}'']\<rparr>)
             = Inr (Some (UnsupportedVersion 2), w')
        \<and> trace w' = [ReadFile ''/home/u/.cli-proxy-api/usage.json'']
        \<and> files w' = [''/home/u/.cli-proxy-api/usage.json'' \<mapsto> ''{version: 2, data: 7}'']
        \<and> store w' = 7)"
proof -
  let ?w = "w_sample\<lparr>files := [filePath p_sample \<mapsto> ''{version: 2, data: 7}'']\<rparr>"
  have r: "fail_read ?w (filePath p_sample) = None"
    by (simp add: w_sample_def)
  have f: "files ?w (filePath p_sample) = Some ''{version: 2, data: 7}''"
    by simp
  have u: "Unmarshal rt_sample ''{version: 2, data: 7}'' = Inr \<lparr>Version = 2, SavedAt = zero_time, Data = 7\<rparr>"
    by (simp add: rt_sample_def Unmarshal_sample_def strip_prefix_def HasPrefix_def read_int_def
        read_nat_def is_digit_def digit_val_def)
  have v: "Version \<lparr>Version = 2, SavedAt = zero_time, Data = 7::nat\<rparr> \<noteq> 1"
    by simp
  from Load_rejects_other_version[OF r f u v] r u show ?thesis
    by (auto simp: p_sample_fields w_sample_def)
qed

subsection \<open>Starting\<close>

text \<open>
  C8. With an interval that is zero or negative, \<^verbatim>\<open>Start\<close> launches no periodic-save
  goroutine, whatever the restore does. With restore-on-start set and no file at the
  path, \<^verbatim>\<open>Start\<close> ends without a panic, logs no failure and only reads the path. If the
  store is then changed to any state \<open>s\<close> and \<^verbatim>\<open>Stop\<close> is called (on a plugin not yet
  stopped, with the store present and a disk that accepts the save), one file is written:
  the path now holds the encoding of the envelope whose data is the snapshot of \<open>s\<close>, the
  temporary file is gone, every other file is as before, and the trace holds one write.
\<close>

theorem restore_only_save_on_stop:
  assumes "interval p \<le> 0"
  shows "(\<forall>w'. Start rt p w = Inr w' \<longrightarrow>
            count_events (\<lambda>e. e = GoRun) w' = count_events (\<lambda>e. e = GoRun) w)
       \<and> (restoreOnStart p \<and> fail_read w (filePath p) = None \<and> files w (filePath p) = None \<longrightarrow>
            Start rt p w = Inr (emit (ReadFile (filePath p)) w)
          \<and> (plugin_inv p \<and> \<not> stopped p \<and> stats p = StoreRef
               \<and> w2 = (emit (ReadFile (filePath p)) w)\<lparr>store := s\<rparr>
               \<and> disk_accepts_save rt p w2 \<and> Marshal rt (envelope rt w2) = Inr b \<longrightarrow>
               (\<exists>w3. Stop rt p w2 = Inr (p\<lparr>stopped := True, stopCh := ChanClosed\<rparr>, w3)
                  \<and> files w3 = ((files w)(filePath p @ ''.tmp'' := None))(filePath p \<mapsto> b)
                  \<and> Data (envelope rt w2) = Snapshot rt s
                  \<and> trace w3 = trace w @ [ReadFile (filePath p), CloseStopCh, CallSnapshot,
                       MkdirAll (Dir rt (filePath p)), WriteFile (filePath p @ ''.tmp'') b,
                       Rename (filePath p @ ''.tmp'') (filePath p),
                       Log (DebugSaved (filePath p) (Snapshot rt s))]
                  \<and> count_events is_WriteFile w3 = count_events is_WriteFile w + 1)))"
proof (intro conjI allI impI)
  fix w'
  assume "Start rt p w = Inr w'"
  from Start_GoRun[OF this] assms
  show "count_events (\<lambda>e. e = GoRun) w' = count_events (\<lambda>e. e = GoRun) w"
    by simp
next
  assume a: "restoreOnStart p \<and> fail_read w (filePath p) = None \<and> files w (filePath p) = None"
  then show "Start rt p w = Inr (emit (ReadFile (filePath p)) w)"
    using assms by (simp add: Start_def Load_missing_file)
next
  assume a: "restoreOnStart p \<and> fail_read w (filePath p) = None \<and> files w (filePath p) = None"
    and b: "plugin_inv p \<and> \<not> stopped p \<and> stats p = StoreRef
               \<and> w2 = (emit (ReadFile (filePath p)) w)\<lparr>store := s\<rparr>
               \<and> disk_accepts_save rt p w2 \<and> Marshal rt (envelope rt w2) = Inr b"
  let ?p' = "p\<lparr>stopped := True, stopCh := ChanClosed\<rparr>"
  from b have inv: "plugin_inv p" and ns: "\<not> stopped p" and sr: "stats p = StoreRef"
    and w2eq: "w2 = (emit (ReadFile (filePath p)) w)\<lparr>store := s\<rparr>"
    and disk: "disk_accepts_save rt p w2" and marsh: "Marshal rt (envelope rt w2) = Inr b"
    by blast+
  have sv: "Save rt p (emit CloseStopCh w2) =
           (None, (emit CloseStopCh w2)\<lparr>files := ((files w2)(filePath p @ ''.tmp'' := None))(filePath p \<mapsto> b),
                    trace := trace (emit CloseStopCh w2) @ [CallSnapshot, MkdirAll (Dir rt (filePath p)),
                      WriteFile (filePath p @ ''.tmp'') b, Rename (filePath p @ ''.tmp'') (filePath p),
                      Log (DebugSaved (filePath p) (Snapshot rt (store w2)))]\<rparr>)"
    using Save_success[of p rt "emit CloseStopCh w2" b] sr disk marsh by simp
  have st: "Stop rt p w2 = Inr (?p', case Save rt p (emit CloseStopCh w2) of
                  (Some err, w1) \<Rightarrow> emit (Log (ErrorFinalSaveFailed err)) w1
                | (None, w1) \<Rightarrow> w1)"
    using Stop_first[OF inv ns, of rt w2] by simp
  have w2: "files w2 = files w" "store w2 = s" "trace w2 = trace w @ [ReadFile (filePath p)]"
    using w2eq by simp_all
  show "\<exists>w3. Stop rt p w2 = Inr (?p', w3)
                  \<and> files w3 = ((files w)(filePath p @ ''.tmp'' := None))(filePath p \<mapsto> b)
                  \<and> Data (envelope rt w2) = Snapshot rt s
                  \<and> trace w3 = trace w @ [ReadFile (filePath p), CloseStopCh, CallSnapshot,
                       MkdirAll (Dir rt (filePath p)), WriteFile (filePath p @ ''.tmp'') b,
                       Rename (filePath p @ ''.tmp'') (filePath p),
                       Log (DebugSaved (filePath p) (Snapshot rt s))]
                  \<and> count_events is_WriteFile w3 = count_events is_WriteFile w + 1"
    unfolding st sv using w2 by (simp add: envelope_def count_events_def)
qed

theorem restore_only_save_on_stop_witness:
  "interval p_sample \<le> 0 \<and> restoreOnStart p_sample
   \<and> fail_read w_sample (filePath p_sample) = None \<and> files w_sample (filePath p_sample) = None
   \<and> plugin_inv p_sample \<and> \<not> stopped p_sample \<and> stats p_sample = StoreRef
   \<and> disk_accepts_save rt_sample p_sample ((emit (ReadFile (filePath p_sample)) w_sample)\<lparr>store := 42\<rparr>)
   \<and> Marshal rt_sample (envelope rt_sample ((emit (ReadFile (filePath p_sample)) w_sample)\<lparr>store := 42\<rparr>))
        = Inr ''{version: 1, data: 42}''
   \<and> Start rt_sample p_sample w_sample = Inr (emit (ReadFile ''/home/u/.cli-proxy-api/usage.json'') w_sample)
   \<and> count_events (\<lambda>e. e = GoRun) (emit (ReadFile ''/home/u/.cli-proxy-api/usage.json'') w_sample) = 0
   \<and> (\<exists>p' w3. Stop rt_sample p_sample ((emit (ReadFile (filePath p_sample)) w_sample)\<lparr>store := 42\<rparr>) = Inr (p', w3)
        \<and> files w3 = [''/home/u/.cli-proxy-api/usage.json'' \<mapsto> ''{version: 1, data: 42}'']
        \<and> count_events is_WriteFile w3 = 1)"
proof -
  let ?w2 = "(emit (ReadFile (filePath p_sample)) w_sample)\<lparr>store := 42\<rparr>"
  have i: "interval p_sample \<le> 0" and ro: "restoreOnStart p_sample" and ns: "\<not> stopped p_sample"
    and sr: "stats p_sample = StoreRef" and inv: "plugin_inv p_sample"
    and fp: "filePath p_sample = ''/home/u/.cli-proxy-api/usage.json''"
    by (simp_all add: p_sample_fields plugin_inv_def)
  have r: "fail_read w_sample (filePath p_sample) = None" and f: "files w_sample (filePath p_sample) = None"
    and fs: "files w_sample = Map.empty" and tr: "trace w_sample = []"
    by (simp_all add: w_sample_def)
  have d: "disk_accepts_save rt_sample p_sample ?w2"
    by (simp add: disk_accepts_save_def w_sample_def)
  have m: "Marshal rt_sample (envelope rt_sample ?w2) = Inr ''{version: 1, data: 42}''"
    by (simp add: rt_sample_def envelope_def Marshal_sample_def show_int_def decimal.simps digit_def)
  from restore_only_save_on_stop[OF i, of rt_sample w_sample ?w2 42 "''{version: 1, data: 42}''"]
    i ro ns sr inv r f d m
  have "Start rt_sample p_sample w_sample = Inr (emit (ReadFile (filePath p_sample)) w_sample)"
    and "\<exists>w3. Stop rt_sample p_sample ?w2 = Inr (p_sample\<lparr>stopped := True, stopCh := ChanClosed\<rparr>, w3)
        \<and> files w3 = ((files w_sample)(filePath p_sample @ ''.tmp'' := None))(filePath p_sample \<mapsto> ''{version: 1, data: 42}'')
        \<and> count_events is_WriteFile w3 = count_events is_WriteFile w_sample + 1"
    by auto
  then show ?thesis
    using i ro ns sr inv r f d m fs tr
    by (auto simp: fp count_events_def)
qed

subsection \<open>Resolving the path\<close>

text \<open>
  C7. A path that does not start with \<^verbatim>\<open>~\<close> is returned as it is; so is every path when
  the home directory cannot be determined. Otherwise the path is \<^verbatim>\<open>~\<close>, then a run of
  slashes and backslashes, then a remainder that does not start with one: with an empty
  remainder the result is the home directory itself, else it is the remainder joined
  onto the home directory. \<^verbatim>\<open>resolvePath\<close> returns a string in every case; it has no error.
\<close>

theorem resolvePath_cases:
  "(\<not> HasPrefix path ''~'' \<longrightarrow> resolvePath rt w path = path)
   \<and> (home w = None \<longrightarrow> resolvePath rt w path = path)
   \<and> (home w = Some h \<and> list_all is_separator seps \<longrightarrow>
         resolvePath rt w (''~'' @ seps) = h)
   \<and> (home w = Some h \<and> list_all is_separator seps \<and> \<not> is_separator c \<longrightarrow>
         resolvePath rt w (''~'' @ seps @ c # rest) = Join rt h (c # rest))"
proof -
  have trim: "TrimLeft (seps @ r) [CHR ''/'', CHR 0x5C] = r"
    if "list_all is_separator seps" "r = [] \<or> \<not> is_separator (hd r)" for seps r
    using that
    by (induction seps) (auto simp: TrimLeft_def is_separator_def dropWhile_eq_self_iff)
  show ?thesis
    using trim[of seps "[]"] trim[of seps "c # rest"]
    by (auto simp: resolvePath_def HasPrefix_def TrimPrefix_def split: option.splits)
qed

theorem resolvePath_cases_witness:
  "\<not> HasPrefix ''/abs/path'' ''~'' \<and> resolvePath rt_sample w_sample ''/abs/path'' = ''/abs/path''
   \<and> home (w_sample\<lparr>home := None\<rparr>) = None
   \<and> resolvePath rt_sample (w_sample\<lparr>home := None\<rparr>) ''~/foo/bar'' = ''~/foo/bar''
   \<and> home w_sample = Some ''/home/u'' \<and> list_all is_separator ''/'' \<and> \<not> is_separator (CHR ''f'')
   \<and> resolvePath rt_sample w_sample ''~'' = ''/home/u''
   \<and> resolvePath rt_sample w_sample ''~/'' = ''/home/u''
   \<and> resolvePath rt_sample w_sample ''~/foo/bar'' = ''/home/u/foo/bar''"
proof -
  have a: "\<not> HasPrefix ''/abs/path'' ''~''"
    by (simp add: HasPrefix_def)
  have b: "home (w_sample\<lparr>home := None\<rparr>) = None"
    by simp
  have c: "home w_sample = Some ''/home/u''"
    by (simp add: w_sample_def)
  have d: "list_all is_separator ''/''" "list_all is_separator []" "\<not> is_separator (CHR ''f'')"
    by (simp_all add: is_separator_def)
  have j: "Join rt_sample ''/home/u'' ''foo/bar'' = ''/home/u/foo/bar''"
    by (simp add: rt_sample_def Join_unix_def Clean_def)
  from resolvePath_cases[of "''/abs/path''" rt_sample w_sample "''/home/u''" "''/''" "CHR ''f''" "''oo/bar''"]
       resolvePath_cases[of "''~/foo/bar''" rt_sample "w_sample\<lparr>home := None\<rparr>" "''/home/u''" "[]" "CHR ''f''" "''oo/bar''"]
       resolvePath_cases[of "''~''" rt_sample w_sample "''/home/u''" "[]" "CHR ''f''" "''oo/bar''"]
       a b c d j
  show ?thesis by simp
qed

subsection \<open>The configured interval\<close>

text \<open>
  C5, as the code has it. With a persist file configured, \<^verbatim>\<open>StartService\<close> builds the
  plugin with the parsed interval (zero when the string does not parse) and logs the
  warning exactly when the string is non-empty, is not the literal \<^verbatim>\<open>0\<close>, and is
  unparsable or non-positive; it logs nothing else. An unparsable or non-positive
  interval gives a plugin whose \<^verbatim>\<open>Start\<close> launches no periodic-save goroutine.
\<close>

theorem save_interval_warning:
  assumes "PersistFile cfg \<noteq> []"
  shows "\<exists>p w'. StartService_filePlugin rt cfg w = (Some p, w')
       \<and> interval p = (case ParseDuration rt (SaveInterval cfg) of None \<Rightarrow> 0 | Some d \<Rightarrow> d)
       \<and> (w' = emit (Log (WarnInvalidSaveInterval (SaveInterval cfg))) w \<or> w' = w)
       \<and> (logs_warning rt cfg w \<longleftrightarrow>
            SaveInterval cfg \<noteq> [] \<and> SaveInterval cfg \<noteq> ''0''
            \<and> nonpositive_or_unparsable rt (SaveInterval cfg))
       \<and> (nonpositive_or_unparsable rt (SaveInterval cfg) \<longrightarrow>
            interval p \<le> 0
          \<and> (\<forall>w1 w2. Start rt p w1 = Inr w2 \<longrightarrow>
                count_events (\<lambda>e. e = GoRun) w2 = count_events (\<lambda>e. e = GoRun) w1))"
proof -
  let ?s = "SaveInterval cfg"
  let ?iv = "case ParseDuration rt ?s of None \<Rightarrow> 0 | Some d \<Rightarrow> d"
  let ?warn = "?iv \<le> 0 \<and> ?s \<noteq> [] \<and> ?s \<noteq> ''0''"
  let ?w' = "if ?warn then emit (Log (WarnInvalidSaveInterval ?s)) w else w"
  let ?p = "NewFileUsagePlugin rt ?w' (PersistFile cfg) ?iv (RestoreOnStart cfg) StoreRef"
  have run: "StartService_filePlugin rt cfg w = (Some ?p, ?w')"
    using assms by (simp add: StartService_filePlugin_def Let_def)
  have iv: "interval ?p = ?iv"
    by (simp add: NewFileUsagePlugin_def)
  have np: "nonpositive_or_unparsable rt ?s \<longleftrightarrow> ?iv \<le> 0"
    by (simp add: nonpositive_or_unparsable_def split: option.splits)
  have lw: "logs_warning rt cfg w \<longleftrightarrow> ?warn"
    unfolding logs_warning_def run by simp
  have dis: "\<forall>w1 w2. Start rt ?p w1 = Inr w2 \<longrightarrow>
                count_events (\<lambda>e. e = GoRun) w2 = count_events (\<lambda>e. e = GoRun) w1"
    if "?iv \<le> 0"
    using Start_GoRun[of rt ?p] that iv by simp
  show ?thesis
    unfolding run using iv np lw dis by (intro exI conjI) auto
qed

theorem save_interval_warning_witness:
  "PersistFile \<lparr>PersistFile = ''~/.cli-proxy-api/usage.json'', SaveInterval = ''-5m'', RestoreOnStart = True\<rparr> \<noteq> []
   \<and> nonpositive_or_unparsable rt_sample ''-5m''
   \<and> logs_warning rt_sample \<lparr>PersistFile = ''~/.cli-proxy-api/usage.json'', SaveInterval = ''-5m'', RestoreOnStart = True\<rparr> w_sample
   \<and> nonpositive_or_unparsable rt_sample ''''
   \<and> \<not> logs_warning rt_sample \<lparr>PersistFile = ''~/.cli-proxy-api/usage.json'', SaveInterval = '''', RestoreOnStart = True\<rparr> w_sample
   \<and> \<not> nonpositive_or_unparsable rt_sample ''5m''
   \<and> \<not> logs_warning rt_sample \<lparr>PersistFile = ''~/.cli-proxy-api/usage.json'', SaveInterval = ''5m'', RestoreOnStart = True\<rparr> w_sample"
proof -
  have a: "nonpositive_or_unparsable rt_sample ''-5m''" "nonpositive_or_unparsable rt_sample ''''"
     "\<not> nonpositive_or_unparsable rt_sample ''5m''"
    by (simp_all add: nonpositive_or_unparsable_def rt_sample_def ParseDuration_whole_def
        is_digit_def digit_val_def add_group_def unit_ns_def)
  from save_interval_warning[of "\<lparr>PersistFile = ''~/.cli-proxy-api/usage.json'', SaveInterval = ''-5m'', RestoreOnStart = True\<rparr>" rt_sample w_sample]
       save_interval_warning[of "\<lparr>PersistFile = ''~/.cli-proxy-api/usage.json'', SaveInterval = '''', RestoreOnStart = True\<rparr>" rt_sample w_sample]
       save_interval_warning[of "\<lparr>PersistFile = ''~/.cli-proxy-api/usage.json'', SaveInterval = ''5m'', RestoreOnStart = True\<rparr>" rt_sample w_sample]
       a
  show ?thesis by auto
qed

text \<open>
  The literal \<^verbatim>\<open>0\<close> is the case the specification's wording gets wrong: it is non-empty
  and parses to the zero duration, and \<^verbatim>\<open>StartService\<close> stays silent and leaves the
  world as it was.
\<close>

theorem save_interval_zero_counterexample:
  "ParseDuration rt_sample ''0'' = Some 0
   \<and> spec_warns rt_sample ''0''
   \<and> \<not> logs_warning rt_sample
         \<lparr>PersistFile = ''~/.cli-proxy-api/usage.json'', SaveInterval = ''0'', RestoreOnStart = True\<rparr> w_sample
   \<and> snd (StartService_filePlugin rt_sample
         \<lparr>PersistFile = ''~/.cli-proxy-api/usage.json'', SaveInterval = ''0'', RestoreOnStart = True\<rparr> w_sample)
       = w_sample"
  by (simp add: spec_warns_def nonpositive_or_unparsable_def logs_warning_def StartService_filePlugin_def
      rt_sample_def ParseDuration_whole_def)


end
